theory Spec2Isabelle
  imports Main "HOL-Library.Word"
begin

section \<open>Python values used by \<open>main.py\<close>\<close>

text \<open>
  The service in \<open>src/main.py\<close> chains three external collaborators (speech-to-text,
  text generation, text-to-speech) and keeps one global dictionary of chat transcripts.
  The model below follows the module top to bottom.

  A Python expression of type \<open>Optional[str]\<close> is a \<open>string option\<close>: \<open>None\<close> is
  Python's \<open>None\<close>. Characters are the code points below 256; the only place where the
  code looks inside a string is \<open>str.strip()\<close>.
\<close>

type_synonym bytes = "8 word list"

text \<open>Python truthiness of an \<open>Optional[str]\<close>: \<open>None\<close> and the empty string are falsy.\<close>

definition truthy :: "string option \<Rightarrow> bool" where
  "truthy x = (case x of None \<Rightarrow> False | Some s \<Rightarrow> s \<noteq> [])"

text \<open>An f-string field \<open>{x}\<close>: \<open>str(None)\<close> is the text \<open>None\<close>.\<close>

definition fmt :: "string option \<Rightarrow> string" where
  "fmt x = (case x of None \<Rightarrow> ''None'' | Some s \<Rightarrow> s)"

text \<open>
  \<open>str.isspace\<close> on the code points below 256: tab to carriage return, the four
  separators \<open>0x1C..0x1F\<close>, the space, \<open>0x85\<close> and the no-break space \<open>0xA0\<close>.
\<close>

definition isspace :: "char \<Rightarrow> bool" where
  "isspace c = (List.member [9, 10, 11, 12, 13, 28, 29, 30, 31, 32, 133, 160] (of_char c :: nat))"

text \<open>\<open>text.strip()\<close>: whitespace is removed from both ends.\<close>

definition strip :: "string \<Rightarrow> string" where
  "strip s = rev (dropWhile isspace (rev (dropWhile isspace s)))"

text \<open>\<open>str(n)\<close> for a non-negative integer (the HTTP status of the synthesis service).\<close>

definition digit :: "nat \<Rightarrow> char" where
  "digit d = char_of (48 + d)"

function str_nat :: "nat \<Rightarrow> string" where
  "str_nat n = (if n < 10 then [digit n] else str_nat (n div 10) @ [digit (n mod 10)])"
  by pat_completeness auto
termination
  by (relation "measure id") auto

declare str_nat.simps [simp del]

text \<open>
  What a call into a third-party library does: it returns a value, or it raises an
  exception \<open>e\<close>, of which the code only ever uses \<open>str(e)\<close>.
\<close>

datatype 'a outcome = Returned 'a | Raised string

section \<open>JSON bodies and responses\<close>

text \<open>A turn is the dictionary \<open>{"role": ..., "content": ...}\<close> stored in a transcript.\<close>

record turn =
  role :: string
  content :: "string option"

datatype jval =
    JNull
  | JBool bool
  | JStr string
  | JTurns "turn list"
  | JObj "(string \<times> jval) list"

type_synonym dict = "(string \<times> jval) list"

definition of_opt :: "string option \<Rightarrow> jval" where
  "of_opt x = (case x of None \<Rightarrow> JNull | Some s \<Rightarrow> JStr s)"

text \<open>\<open>d[k] = v\<close> and \<open>d.update({k: v})\<close> on a dictionary literal.\<close>

fun dict_set :: "dict \<Rightarrow> string \<Rightarrow> jval \<Rightarrow> dict" where
  "dict_set [] k v = [(k, v)]"
| "dict_set ((k', v') # d) k v = (if k' = k then (k, v) # d else (k', v') # dict_set d k v)"

text \<open>
  \<open>JSONResponse(content=..., status_code=...)\<close>; the status is 200 when none is given,
  and also when a handler returns a plain dictionary.
\<close>

datatype response = JSONResponse (body: dict) (status_code: nat)

definition field :: "response \<Rightarrow> string \<Rightarrow> jval option" where
  "field r k = map_of (body r) k"

definition TypeError_concat_None :: string where
  "TypeError_concat_None =
     ''can only concatenate str (not '' @ [CHR 0x22] @ ''NoneType'' @ [CHR 0x22] @ '') to str''"

section \<open>The environment of one request\<close>

text \<open>
  The three API keys are read once from the process environment (\<open>os.getenv\<close>, so each
  is \<open>None\<close> or a string). The collaborators are opaque: the model takes what each call
  does as given. \<open>transcribe\<close> is \<open>aai.Transcriber().transcribe(audio_data)\<close>, whose
  result may be \<open>None\<close> and whose \<open>.text\<close> may be \<open>None\<close>; \<open>generate_content\<close> is
  \<open>model.generate_content(...)\<close> with the \<open>.text\<close> of its result; \<open>post\<close> is
  \<open>client.post(MURF_API_URL, ...)\<close> for the payload's \<open>text\<close>, whose response has a
  status code, a body text and \<open>response.json().get("audioFile")\<close> (which may raise).
  Constructing the client objects is taken not to fail.
\<close>

datatype transcript = Transcript (transcript_text: "string option")

datatype generation = GenerateContentResponse (response_text: "string option")

record httpx_response =
  http_status :: nat
  http_text :: string
  json_audioFile :: "string option outcome"

record env =
  ASSEMBLYAI_API_KEY :: "string option"
  GEMINI_API_KEY :: "string option"
  MURF_API_KEY :: "string option"
  transcribe :: "bytes \<Rightarrow> transcript option outcome"
  generate_content :: "string option \<Rightarrow> generation option outcome"
  post :: "string option \<Rightarrow> httpx_response outcome"

text \<open>
  \<open>chat_histories\<close>, the global dictionary from session id to transcript.
\<close>

type_synonym store = "string \<rightharpoonup> turn list"

text \<open>
  The calls a request makes, in order: the three helpers, the three collaborators, and
  the three statements that change \<open>chat_histories\<close>
  (\<open>chat_histories[session_id] = []\<close>, \<open>.append(turn)\<close> and \<open>del\<close>).
\<close>

datatype call =
    Safe_transcribe_audio bytes
  | Transcribe bytes
  | Safe_generate_llm_response "string option" "turn list option"
  | Generate_content "string option"
  | Safe_generate_tts "string option"
  | Post "string option"
  | New_transcript string
  | Append string turn
  | Delete string

section \<open>Helpers\<close>

definition fallback_messages :: "(string \<times> string) list" where
  "fallback_messages =
     [(''stt'', ''I'm having trouble hearing you right now. Could you please try again?''),
      (''llm'', ''I'm having difficulty processing your request at the moment. Please try again later.''),
      (''tts'', ''I'm having trouble generating audio right now. Here's my text response instead.''),
      (''general'', ''I'm experiencing technical difficulties. Please try again in a moment.'')]"

definition create_fallback_response :: "string option \<Rightarrow> string \<Rightarrow> dict" where
  "create_fallback_response message error_type =
     [(''error'', JBool True),
      (''error_type'', JStr error_type),
      (''message'', of_opt message),
      (''fallback_message'',
         of_opt (case map_of fallback_messages error_type of
                   Some m \<Rightarrow> Some m
                 | None \<Rightarrow> map_of fallback_messages ''general'')),
      (''audio_url'', JNull)]"

definition safe_transcribe_audio ::
  "env \<Rightarrow> bytes \<Rightarrow> (string option \<times> string option) \<times> call list" where
  "safe_transcribe_audio env audio_data =
     (if \<not> truthy (ASSEMBLYAI_API_KEY env) then
        ((None, Some ''AssemblyAI API key not configured''), [Safe_transcribe_audio audio_data])
      else
        (case transcribe env audio_data of
           Raised e \<Rightarrow> (None, Some e)
         | Returned None \<Rightarrow> (None, Some ''Transcription returned empty result'')
         | Returned (Some t) \<Rightarrow>
             if \<not> truthy (transcript_text t) then
               (None, Some ''Transcription returned empty result'')
             else (transcript_text t, None),
         [Safe_transcribe_audio audio_data, Transcribe audio_data]))"

text \<open>The loop over \<open>conversation_history\<close> that builds the prompt context.\<close>

fun build_context :: "string \<Rightarrow> turn list \<Rightarrow> string" where
  "build_context context [] = context"
| "build_context context (message # rest) =
     build_context
       (context @ (if role message = ''user'' then ''User'' else ''Assistant'')
          @ '': '' @ fmt (content message) @ [CHR 0x0A])
       rest"

definition fallback_responses :: "string list" where
  "fallback_responses =
     [''I apologize, but I'm having trouble processing your request right now. Could you please try again?'',
      ''I'm experiencing some technical difficulties. Please rephrase your question and try again.'',
      ''Sorry, I'm unable to generate a proper response at the moment. Please try again later.'']"

text \<open>
  A \<open>conversation_history\<close> that is \<open>None\<close> or empty is falsy: the prompt goes out alone.
\<close>

definition llm_input :: "string option \<Rightarrow> turn list option \<Rightarrow> string option" where
  "llm_input prompt conversation_history =
     (case conversation_history of
        None \<Rightarrow> prompt
      | Some [] \<Rightarrow> prompt
      | Some (m # ms) \<Rightarrow>
          Some (build_context [] (m # ms) @ ''User: '' @ fmt prompt @ [CHR 0x0A] @ ''Assistant:''))"

definition safe_generate_llm_response ::
  "env \<Rightarrow> string option \<Rightarrow> turn list option \<Rightarrow> (string \<times> string option) \<times> call list" where
  "safe_generate_llm_response env prompt conversation_history =
     (if \<not> truthy (GEMINI_API_KEY env) then
        ((fallback_responses ! 0, Some ''Gemini API key not configured''),
         [Safe_generate_llm_response prompt conversation_history])
      else
        (case generate_content env (llm_input prompt conversation_history) of
           Raised e \<Rightarrow> (fallback_responses ! 0, Some e)
         | Returned None \<Rightarrow> (fallback_responses ! 0, Some ''LLM returned empty response'')
         | Returned (Some r) \<Rightarrow>
             (case response_text r of
                None \<Rightarrow> (fallback_responses ! 0, Some ''LLM returned empty response'')
              | Some t \<Rightarrow>
                  if t = [] then (fallback_responses ! 0, Some ''LLM returned empty response'')
                  else (t, None)),
         [Safe_generate_llm_response prompt conversation_history,
          Generate_content (llm_input prompt conversation_history)]))"

definition safe_generate_tts ::
  "env \<Rightarrow> string option \<Rightarrow> (string option \<times> string option) \<times> call list" where
  "safe_generate_tts env text_arg =
     (if \<not> truthy (MURF_API_KEY env) then
        ((None, Some ''Murf API key not configured''), [Safe_generate_tts text_arg])
      else
        (case post env text_arg of
           Raised e \<Rightarrow> (None, Some e)
         | Returned r \<Rightarrow>
             if http_status r = 200 then
               (case json_audioFile r of
                  Raised e \<Rightarrow> (None, Some e)
                | Returned audio_url \<Rightarrow>
                    if truthy audio_url then (audio_url, None)
                    else (None, Some ''No audio URL in response''))
             else
               (None,
                Some (''TTS API returned status '' @ str_nat (http_status r) @ '': '' @ http_text r)),
         [Safe_generate_tts text_arg, Post text_arg]))"

section \<open>Request handlers\<close>

text \<open>
  A handler takes the environment of its request and returns its response with the calls
  it made. The uploaded file is the outcome of \<open>await file.read()\<close>; an exception there
  is caught by the handler's own \<open>except Exception\<close>, as is the \<open>TypeError\<close> of
  concatenating \<open>None\<close> to a string. The handlers that touch \<open>chat_histories\<close> also take
  and return the store.
\<close>

definition generate_tts :: "env \<Rightarrow> string \<Rightarrow> response \<times> call list" where
  "generate_tts env text_arg =
     (if strip text_arg = [] then
        (JSONResponse (create_fallback_response (Some ''Empty text provided'') ''tts'') 400, [])
      else
        (case safe_generate_tts env (Some text_arg) of
           ((audio_url, error), cs) \<Rightarrow>
             if truthy error then (JSONResponse (create_fallback_response error ''tts'') 500, cs)
             else (JSONResponse [(''audio_url'', of_opt audio_url), (''error'', JBool False)] 200, cs)))"

definition transcribe_audio :: "env \<Rightarrow> bytes outcome \<Rightarrow> response \<times> call list" where
  "transcribe_audio env file =
     (case file of
        Raised e \<Rightarrow> (JSONResponse (create_fallback_response (Some e) ''stt'') 500, [])
      | Returned contents \<Rightarrow>
          (case safe_transcribe_audio env contents of
             ((transcription, error), cs) \<Rightarrow>
               if truthy error then (JSONResponse (create_fallback_response error ''stt'') 500, cs)
               else
                 (JSONResponse [(''transcription'', of_opt transcription), (''error'', JBool False)] 200,
                  cs)))"

definition echo_tts :: "env \<Rightarrow> bytes outcome \<Rightarrow> response \<times> call list" where
  "echo_tts env file =
     (case file of
        Raised e \<Rightarrow> (JSONResponse (create_fallback_response (Some e) ''general'') 500, [])
      | Returned contents \<Rightarrow>
          (case safe_transcribe_audio env contents of
             ((transcription, transcribe_error), c1) \<Rightarrow>
               if truthy transcribe_error then
                 (JSONResponse (create_fallback_response transcribe_error ''stt'') 500, c1)
               else
                 (case safe_generate_tts env transcription of
                    ((audio_url, tts_error), c2) \<Rightarrow>
                      if truthy tts_error then
                        (case transcription of
                           None \<Rightarrow>
                             (JSONResponse
                                (create_fallback_response (Some TypeError_concat_None) ''general'')
                                500,
                              c1 @ c2)
                         | Some t \<Rightarrow>
                             (JSONResponse
                                [(''transcription'', JStr t),
                                 (''error'', JBool True),
                                 (''error_type'', JStr ''tts''),
                                 (''message'', of_opt tts_error),
                                 (''fallback_message'',
                                    JStr (''I heard you say: '' @ t @ '' (Audio generation failed)'')),
                                 (''audio_url'', JNull)]
                                200,
                              c1 @ c2))
                      else
                        (JSONResponse
                           [(''audio_url'', of_opt audio_url),
                            (''transcription'', of_opt transcription),
                            (''error'', JBool False)]
                           200,
                         c1 @ c2))))"

definition llm_query :: "env \<Rightarrow> string \<Rightarrow> response \<times> call list" where
  "llm_query env text_arg =
     (if strip text_arg = [] then
        (JSONResponse (create_fallback_response (Some ''Empty text provided'') ''llm'') 400, [])
      else
        (case safe_generate_llm_response env (Some text_arg) None of
           ((response, error), cs) \<Rightarrow>
             if truthy error \<and> response = [] then
               (JSONResponse (create_fallback_response error ''llm'') 500, cs)
             else
               (JSONResponse
                  [(''response'', JStr response),
                   (''input'', JStr text_arg),
                   (''error'', JBool False),
                   (''has_fallback'', JBool (truthy error))]
                  200,
                cs)))"

text \<open>
  The tail shared, line for line, by \<open>llm_query_audio\<close> and \<open>agent_chat\<close>: the synthesis
  outcome and the generation error are folded into \<open>response_data\<close>. Only the lead-in of
  the fallback message differs between the two handlers.
\<close>

definition fold_outcomes ::
  "dict \<Rightarrow> string \<Rightarrow> string \<Rightarrow> string option \<Rightarrow> string option \<Rightarrow> string option \<Rightarrow> dict" where
  "fold_outcomes response_data lead_in llm_response audio_url tts_error llm_error =
     (let d1 =
        (if truthy tts_error then
           dict_set
             (dict_set (dict_set response_data ''audio_url'' JNull) ''tts_error'' (JBool True))
             ''fallback_message'' (JStr (lead_in @ llm_response))
         else dict_set response_data ''audio_url'' (of_opt audio_url))
      in if truthy llm_error then dict_set d1 ''has_llm_fallback'' (JBool True) else d1)"

definition llm_query_audio :: "env \<Rightarrow> bytes outcome \<Rightarrow> response \<times> call list" where
  "llm_query_audio env file =
     (case file of
        Raised e \<Rightarrow> (JSONResponse (create_fallback_response (Some e) ''general'') 500, [])
      | Returned contents \<Rightarrow>
          (case safe_transcribe_audio env contents of
             ((transcription, transcribe_error), c1) \<Rightarrow>
               if truthy transcribe_error then
                 (JSONResponse (create_fallback_response transcribe_error ''stt'') 500, c1)
               else
                 (case safe_generate_llm_response env transcription None of
                    ((llm_response, llm_error), c2) \<Rightarrow>
                      (case safe_generate_tts env (Some llm_response) of
                         ((audio_url, tts_error), c3) \<Rightarrow>
                           (JSONResponse
                              (fold_outcomes
                                 [(''transcription'', of_opt transcription),
                                  (''llm_response'', JStr llm_response),
                                  (''error'', JBool False)]
                                 ''I'm having trouble generating audio right now. Here's my text response: ''
                                 llm_response audio_url tts_error llm_error)
                              200,
                            c1 @ c2 @ c3)))))"

text \<open>
  \<open>agent_chat\<close>, steps 3 to 6 on the transcript of \<open>session_id\<close>: \<open>h0\<close> is the list stored
  under the key once step 3 has run (the empty list it stores for an unseen key),
  \<open>h1\<close> and \<open>h2\<close> are that list after each \<open>append\<close>, and the generation helper is given
  \<open>chat_histories[session_id][:-1]\<close>, the slice without the last element of \<open>h1\<close>.
\<close>

definition agent_chat ::
  "env \<Rightarrow> store \<Rightarrow> string \<Rightarrow> bytes outcome \<Rightarrow> response \<times> store \<times> call list" where
  "agent_chat env chat_histories session_id file =
     (case file of
        Raised e \<Rightarrow>
          (JSONResponse (create_fallback_response (Some e) ''general'') 500, chat_histories, [])
      | Returned contents \<Rightarrow>
          (case safe_transcribe_audio env contents of
             ((transcription, transcribe_error), c1) \<Rightarrow>
               if truthy transcribe_error then
                 (JSONResponse (create_fallback_response transcribe_error ''stt'') 500,
                  chat_histories, c1)
               else
                 (case (case chat_histories session_id of
                          None \<Rightarrow> ([], [New_transcript session_id])
                        | Some h \<Rightarrow> (h, [])) of
                    (h0, c2) \<Rightarrow>
                      let user_turn = \<lparr>role = ''user'', content = transcription\<rparr>;
                          h1 = h0 @ [user_turn]
                      in
                        (case safe_generate_llm_response env transcription (Some (butlast h1)) of
                           ((llm_response, llm_error), c3) \<Rightarrow>
                             let assistant_turn = \<lparr>role = ''assistant'', content = Some llm_response\<rparr>;
                                 h2 = h1 @ [assistant_turn]
                             in
                               (case safe_generate_tts env (Some llm_response) of
                                  ((audio_url, tts_error), c4) \<Rightarrow>
                                    (JSONResponse
                                       (fold_outcomes
                                          [(''transcription'', of_opt transcription),
                                           (''llm_response'', JStr llm_response),
                                           (''session_id'', JStr session_id),
                                           (''chat_history'', JTurns h2),
                                           (''error'', JBool False)]
                                          ''I'm having trouble with audio generation. Here's my response: ''
                                          llm_response audio_url tts_error llm_error)
                                       200,
                                     chat_histories(session_id \<mapsto> h2),
                                     c1 @ c2 @ [Append session_id user_turn] @ c3
                                       @ [Append session_id assistant_turn] @ c4))))))"

definition get_chat_history :: "store \<Rightarrow> string \<Rightarrow> response \<times> store \<times> call list" where
  "get_chat_history chat_histories session_id =
     (case chat_histories session_id of
        Some h \<Rightarrow>
          (JSONResponse
             [(''session_id'', JStr session_id), (''chat_history'', JTurns h), (''error'', JBool False)]
             200,
           chat_histories, [])
      | None \<Rightarrow>
          (JSONResponse
             [(''session_id'', JStr session_id), (''chat_history'', JTurns []), (''error'', JBool False)]
             200,
           chat_histories, []))"

definition clear_chat_history :: "store \<Rightarrow> string \<Rightarrow> response \<times> store \<times> call list" where
  "clear_chat_history chat_histories session_id =
     (JSONResponse
        [(''session_id'', JStr session_id),
         (''message'', JStr ''Chat history cleared''),
         (''error'', JBool False)]
        200,
      (case chat_histories session_id of
         Some h \<Rightarrow> (chat_histories(session_id := None), [Delete session_id])
       | None \<Rightarrow> (chat_histories, [])))"

text \<open>\<open>create_new_session\<close>, given the value of \<open>str(uuid.uuid4())\<close>.\<close>

definition create_new_session :: "string \<Rightarrow> response \<times> call list" where
  "create_new_session uuid4 =
     (JSONResponse [(''session_id'', JStr uuid4), (''error'', JBool False)] 200, [])"

definition health_check :: "env \<Rightarrow> response \<times> call list" where
  "health_check env =
     (JSONResponse
        [(''status'', JStr ''ok''),
         (''api_status'',
            JObj [(''murf_api'', JBool (truthy (MURF_API_KEY env))),
                  (''assemblyai_api'', JBool (truthy (ASSEMBLYAI_API_KEY env))),
                  (''gemini_api'', JBool (truthy (GEMINI_API_KEY env)))]),
         (''error'', JBool False)]
        200,
      [])"

section \<open>Sequences of requests\<close>

text \<open>
  The requests of the service that the model covers, each with the environment it runs
  in. (\<open>/upload\<close> and the index page only read and write files and never mention
  \<open>chat_histories\<close>.) \<open>handle\<close> runs one request on the store, \<open>run\<close> a sequence of
  requests one after the other.
\<close>

datatype request =
    Tts env string
  | Transcribe_file env "bytes outcome"
  | Echo env "bytes outcome"
  | Llm_query env string
  | Llm_query_audio env "bytes outcome"
  | Chat env string "bytes outcome"
  | History string
  | Clear string
  | New_session string
  | Health env

fun handle :: "request \<Rightarrow> store \<Rightarrow> response \<times> store \<times> call list" where
  "handle (Tts env t) st = (case generate_tts env t of (r, cs) \<Rightarrow> (r, st, cs))"
| "handle (Transcribe_file env f) st = (case transcribe_audio env f of (r, cs) \<Rightarrow> (r, st, cs))"
| "handle (Echo env f) st = (case echo_tts env f of (r, cs) \<Rightarrow> (r, st, cs))"
| "handle (Llm_query env t) st = (case llm_query env t of (r, cs) \<Rightarrow> (r, st, cs))"
| "handle (Llm_query_audio env f) st = (case llm_query_audio env f of (r, cs) \<Rightarrow> (r, st, cs))"
| "handle (Chat env sid f) st = agent_chat env st sid f"
| "handle (History sid) st = get_chat_history st sid"
| "handle (Clear sid) st = clear_chat_history st sid"
| "handle (New_session u) st = (case create_new_session u of (r, cs) \<Rightarrow> (r, st, cs))"
| "handle (Health env) st = (case health_check env of (r, cs) \<Rightarrow> (r, st, cs))"

fun run :: "request list \<Rightarrow> store \<Rightarrow> store \<times> call list" where
  "run [] st = (st, [])"
| "run (r # rs) st =
     (case handle r st of
        (resp, st', cs) \<Rightarrow> (case run rs st' of (st'', cs') \<Rightarrow> (st'', cs @ cs')))"

section \<open>Reading the store and the call log\<close>

text \<open>The transcript of a session as \<open>get_chat_history\<close> reports it: empty for an unknown id.\<close>

definition turns_of :: "store \<Rightarrow> string \<Rightarrow> turn list" where
  "turns_of st sid = (case st sid of None \<Rightarrow> [] | Some h \<Rightarrow> h)"

text \<open>The turns a call log appends to one session, in call order.\<close>

fun appends :: "string \<Rightarrow> call list \<Rightarrow> turn list" where
  "appends sid [] = []"
| "appends sid (Append s t # cs) = (if s = sid then t # appends sid cs else appends sid cs)"
| "appends sid (c # cs) = appends sid cs"

text \<open>
  What a call log leaves of a transcript \<open>h\<close>: an \<open>append\<close> to the session adds its turn
  at the end, a \<open>del\<close> of the session (or its creation) leaves the empty transcript, and
  no other call counts.
\<close>

fun replay :: "string \<Rightarrow> turn list \<Rightarrow> call list \<Rightarrow> turn list" where
  "replay sid h [] = h"
| "replay sid h (Append s t # cs) = replay sid (if s = sid then h @ [t] else h) cs"
| "replay sid h (Delete s # cs) = replay sid (if s = sid then [] else h) cs"
| "replay sid h (New_transcript s # cs) = replay sid (if s = sid then [] else h) cs"
| "replay sid h (c # cs) = replay sid h cs"

text \<open>The \<open>conversation_history\<close> argument of every call of the generation helper.\<close>

fun generation_contexts :: "call list \<Rightarrow> turn list option list" where
  "generation_contexts [] = []"
| "generation_contexts (Safe_generate_llm_response prompt h # cs) = h # generation_contexts cs"
| "generation_contexts (c # cs) = generation_contexts cs"

text \<open>The calls of the stages after transcription: generation and synthesis.\<close>

fun later_stage :: "call \<Rightarrow> bool" where
  "later_stage (Safe_generate_llm_response p h) = True"
| "later_stage (Generate_content p) = True"
| "later_stage (Safe_generate_tts t) = True"
| "later_stage (Post t) = True"
| "later_stage c = False"

text \<open>A request refers to a session id when the id is in its path.\<close>

fun refers :: "string \<Rightarrow> request \<Rightarrow> bool" where
  "refers sid (Chat env s f) = (s = sid)"
| "refers sid (History s) = (s = sid)"
| "refers sid (Clear s) = (s = sid)"
| "refers sid r = False"

section \<open>Example environments\<close>

text \<open>
  All three services up: the audio is heard as \<open>hello\<close>, the model answers
  \<open>Hi there\<close> (and rejects a missing prompt), and synthesis returns an audio URL.
\<close>

definition env_ok :: env where
  "env_ok =
     \<lparr>ASSEMBLYAI_API_KEY = Some ''aai-key'',
      GEMINI_API_KEY = Some ''gemini-key'',
      MURF_API_KEY = Some ''murf-key'',
      transcribe = (\<lambda>audio. Returned (Some (Transcript (Some ''hello'')))),
      generate_content =
        (\<lambda>prompt. case prompt of
                     None \<Rightarrow> Raised ''contents must not be empty''
                   | Some p \<Rightarrow> Returned (Some (GenerateContentResponse (Some ''Hi there'')))),
      post =
        (\<lambda>payload. Returned \<lparr>http_status = 200, http_text = ''{}'',
                               json_audioFile = Returned (Some ''https://murf.ai/a.mp3'')\<rparr>)\<rparr>"

text \<open>No synthesis key; no generation key; neither.\<close>

definition env_tts_down :: env where
  "env_tts_down = env_ok\<lparr>MURF_API_KEY := None\<rparr>"

definition env_llm_down :: env where
  "env_llm_down = env_ok\<lparr>GEMINI_API_KEY := None\<rparr>"

definition env_both_down :: env where
  "env_both_down = env_ok\<lparr>GEMINI_API_KEY := None, MURF_API_KEY := None\<rparr>"

text \<open>
  A collaborator that raises an exception with an empty message: \<open>str(e)\<close> is the
  empty string for a bare \<open>assert\<close> that fails inside a library
  (\<open>AssertionError()\<close>), for \<open>TimeoutError()\<close>, and for a timeout of \<open>httpx\<close> that
  is raised without a message.
\<close>

definition env_silent_stt :: env where
  "env_silent_stt = env_ok\<lparr>transcribe := (\<lambda>audio. Raised [])\<rparr>"

definition env_silent_llm :: env where
  "env_silent_llm = env_ok\<lparr>generate_content := (\<lambda>prompt. Raised [])\<rparr>"

definition env_silent_tts :: env where
  "env_silent_tts = env_ok\<lparr>post := (\<lambda>payload. Raised [])\<rparr>"

text \<open>The store after one and after two chat requests on a new session \<open>s\<close>.\<close>

definition after_one_chat :: store where
  "after_one_chat = fst (snd (agent_chat env_ok Map.empty ''s'' (Returned [])))"

definition after_two_chats :: store where
  "after_two_chats = fst (snd (agent_chat env_ok after_one_chat ''s'' (Returned [])))"

text \<open>
  Two sessions: two chats on \<open>s\<close> with a chat on \<open>t\<close> and its deletion in between.
\<close>

definition example_requests :: "request list" where
  "example_requests =
     [Chat env_ok ''s'' (Returned []),
      Chat env_tts_down ''t'' (Returned []),
      Clear ''t'',
      Chat env_llm_down ''s'' (Returned [])]"

section \<open>Basic facts\<close>

lemma strip_empty_iff: "strip s = [] \<longleftrightarrow> list_all isspace s"
proof
  assume e: "strip s = []"
  show "list_all isspace s"
  proof (cases "dropWhile isspace s")
    case Nil
    then show ?thesis by (simp add: list_all_iff)
  next
    case (Cons x xs)
    then have "\<not> isspace x" using hd_dropWhile [of isspace s] by simp
    moreover from e Cons have "isspace x"
      by (simp add: strip_def)
    ultimately show ?thesis by simp
  qed
next
  assume "list_all isspace s"
  then have h: "dropWhile isspace s = []" by (simp add: list_all_iff)
  show "strip s = []" by (simp only: strip_def h rev.simps dropWhile.simps)
qed

lemma fallback_nonempty: "fallback_responses ! 0 \<noteq> []"
  by (simp add: fallback_responses_def)

lemma gen_text_nonempty: "fst (fst (safe_generate_llm_response env prompt h)) \<noteq> []"
  by (simp add: safe_generate_llm_response_def fallback_nonempty split: outcome.splits option.splits)

lemma map_of_dict_set: "map_of (dict_set d k v) = (map_of d)(k \<mapsto> v)"
  by (induction d k v rule: dict_set.induct) auto

section \<open>Generate-only: empty input\<close>

text \<open>
  C6. A text that is empty or consists of whitespace only is rejected by \<open>llm_query\<close>:
  the response is the standard fallback body with \<open>error = true\<close> and
  \<open>error_type = llm\<close>, its status is 400, and the handler makes no call at all, so
  the generation collaborator is not invoked.
\<close>

theorem llm_query_rejects_blank_input:
  assumes "list_all isspace text_arg"
  shows "llm_query env text_arg =
           (JSONResponse (create_fallback_response (Some ''Empty text provided'') ''llm'') 400, [])
         \<and> status_code (fst (llm_query env text_arg)) = 400
         \<and> field (fst (llm_query env text_arg)) ''error'' = Some (JBool True)
         \<and> field (fst (llm_query env text_arg)) ''error_type'' = Some (JStr ''llm'')
         \<and> snd (llm_query env text_arg) = []"
proof -
  from assms have "strip text_arg = []" by (simp add: strip_empty_iff)
  then have q: "llm_query env text_arg =
      (JSONResponse (create_fallback_response (Some ''Empty text provided'') ''llm'') 400, [])"
    by (simp add: llm_query_def)
  show ?thesis unfolding q by (simp add: field_def create_fallback_response_def)
qed

theorem llm_query_rejects_blank_input_witness:
  "list_all isspace [CHR '' '', CHR 0x09]
   \<and> status_code (fst (llm_query env_ok [CHR '' '', CHR 0x09])) = 400
   \<and> field (fst (llm_query env_ok [CHR '' '', CHR 0x09])) ''error_type'' = Some (JStr ''llm'')
   \<and> snd (llm_query env_ok [CHR '' '', CHR 0x09]) = []"
proof -
  have h: "list_all isspace [CHR '' '', CHR 0x09]" by (simp add: isspace_def)
  show ?thesis
    using h llm_query_rejects_blank_input [OF h, of env_ok] by blast
qed

section \<open>Generate-only: the response text\<close>

text \<open>
  C10. For a text that is not blank, the text the generation helper returns is never
  empty (it is the model's non-empty text or the fixed fallback sentence), so the guard
  \<open>error and not response\<close> of \<open>llm_query\<close> is false and its 500 branch is not taken:
  the response has status 200, \<open>error = false\<close>, and carries that text as \<open>response\<close>.
\<close>

theorem llm_query_response_never_null:
  assumes "strip text_arg \<noteq> []"
  shows "fst (fst (safe_generate_llm_response env (Some text_arg) None)) \<noteq> []
         \<and> \<not> (truthy (snd (fst (safe_generate_llm_response env (Some text_arg) None)))
               \<and> fst (fst (safe_generate_llm_response env (Some text_arg) None)) = [])
         \<and> status_code (fst (llm_query env text_arg)) = 200
         \<and> field (fst (llm_query env text_arg)) ''error'' = Some (JBool False)
         \<and> field (fst (llm_query env text_arg)) ''response'' =
             Some (JStr (fst (fst (safe_generate_llm_response env (Some text_arg) None))))"
proof -
  obtain response error cs where
    g: "safe_generate_llm_response env (Some text_arg) None = ((response, error), cs)"
    by (metis prod.exhaust)
  have ne: "response \<noteq> []" using gen_text_nonempty [of env "Some text_arg" None] g by simp
  show ?thesis using assms ne by (simp add: llm_query_def g field_def)
qed

theorem llm_query_response_never_null_witness:
  "strip ''hello'' \<noteq> []
   \<and> status_code (fst (llm_query env_llm_down ''hello'')) = 200
   \<and> field (fst (llm_query env_llm_down ''hello'')) ''error'' = Some (JBool False)
   \<and> field (fst (llm_query env_llm_down ''hello'')) ''response'' =
       Some (JStr (fallback_responses ! 0))"
proof -
  have h: "strip ''hello'' \<noteq> []" by (simp add: strip_def isspace_def)
  have g: "fst (fst (safe_generate_llm_response env_llm_down (Some ''hello'') None)) =
      fallback_responses ! 0"
    by (simp add: safe_generate_llm_response_def env_llm_down_def env_ok_def truthy_def)
  show ?thesis
    using h llm_query_response_never_null [OF h, of env_llm_down] unfolding g by simp
qed

section \<open>Echo: transcribe, then synthesize\<close>

text \<open>
  C1 as stated fails. When the synthesis key is missing, the audio is transcribed
  (\<open>hello\<close>), synthesis fails, and the body \<open>echo_tts\<close> returns has
  \<open>error = true\<close>, not \<open>false\<close>.
\<close>

theorem echo_tts_degraded_counterexample:
  "fst (fst (safe_transcribe_audio env_tts_down [])) = Some ''hello''
   \<and> snd (fst (safe_transcribe_audio env_tts_down [])) = None
   \<and> snd (fst (safe_generate_tts env_tts_down (Some ''hello''))) = Some ''Murf API key not configured''
   \<and> field (fst (echo_tts env_tts_down (Returned []))) ''error'' = Some (JBool True)
   \<and> field (fst (echo_tts env_tts_down (Returned []))) ''error'' \<noteq> Some (JBool False)"
  by (simp add: echo_tts_def safe_transcribe_audio_def safe_generate_tts_def env_tts_down_def
      env_ok_def truthy_def field_def)

text \<open>
  C1 (as the code has it). When transcription succeeds with the text \<open>t\<close> and synthesis
  fails with a non-empty reason, \<open>echo_tts\<close> answers with status 200 and a body that
  holds the transcription, \<open>error = true\<close> with \<open>error_type = tts\<close> (the synthesis step
  is the one flagged), the reason as \<open>message\<close>, no audio URL, and the fallback message
  \<open>I heard you say: t (Audio generation failed)\<close>, which contains \<open>t\<close> verbatim.
\<close>

theorem echo_tts_synthesis_failure:
  assumes "truthy (ASSEMBLYAI_API_KEY env)"
    and "transcribe env contents = Returned (Some (Transcript (Some t)))"
    and "t \<noteq> []"
    and "snd (fst (safe_generate_tts env (Some t))) = Some reason"
    and "reason \<noteq> []"
  shows "fst (echo_tts env (Returned contents)) =
           JSONResponse
             [(''transcription'', JStr t),
              (''error'', JBool True),
              (''error_type'', JStr ''tts''),
              (''message'', JStr reason),
              (''fallback_message'', JStr (''I heard you say: '' @ t @ '' (Audio generation failed)'')),
              (''audio_url'', JNull)]
             200"
proof -
  have s: "safe_transcribe_audio env contents =
      ((Some t, None), [Safe_transcribe_audio contents, Transcribe contents])"
    using assms(1-3) by (simp add: safe_transcribe_audio_def truthy_def)
  obtain url c2 where g: "safe_generate_tts env (Some t) = ((url, Some reason), c2)"
    using assms(4) by (metis prod.exhaust_sel)
  show ?thesis using assms(5) by (simp add: echo_tts_def s g truthy_def of_opt_def)
qed

theorem echo_tts_synthesis_failure_witness:
  "truthy (ASSEMBLYAI_API_KEY env_tts_down)
   \<and> transcribe env_tts_down [] = Returned (Some (Transcript (Some ''hello'')))
   \<and> ''hello'' \<noteq> []
   \<and> snd (fst (safe_generate_tts env_tts_down (Some ''hello''))) = Some ''Murf API key not configured''
   \<and> ''Murf API key not configured'' \<noteq> []
   \<and> fst (echo_tts env_tts_down (Returned [])) =
           JSONResponse
             [(''transcription'', JStr ''hello''),
              (''error'', JBool True),
              (''error_type'', JStr ''tts''),
              (''message'', JStr ''Murf API key not configured''),
              (''fallback_message'', JStr (''I heard you say: '' @ ''hello'' @ '' (Audio generation failed)'')),
              (''audio_url'', JNull)]
             200"
proof -
  have h1: "truthy (ASSEMBLYAI_API_KEY env_tts_down)"
    by (simp add: env_tts_down_def env_ok_def truthy_def)
  have h2: "transcribe env_tts_down [] = Returned (Some (Transcript (Some ''hello'')))"
    by (simp add: env_tts_down_def env_ok_def)
  have h3: "''hello'' \<noteq> []" by simp
  have h4: "snd (fst (safe_generate_tts env_tts_down (Some ''hello''))) = Some ''Murf API key not configured''"
    by (simp add: safe_generate_tts_def env_tts_down_def env_ok_def truthy_def)
  have h5: "''Murf API key not configured'' \<noteq> []" by simp
  show ?thesis
    using h1 h2 h3 h4 h5 echo_tts_synthesis_failure [OF h1 h2 h3 h4 h5] by blast
qed

section \<open>Pipelines that start with transcription\<close>

text \<open>
  A transcription failure whose reason is not empty aborts all three pipelines: the
  response is the \<open>stt\<close> fallback body with status 500, the store is unchanged, and
  the only calls are those of the transcription helper.
\<close>

lemma stt_log_no_later_stage: "filter later_stage (snd (safe_transcribe_audio env contents)) = []"
  by (simp add: safe_transcribe_audio_def)

lemma stt_failure_with_reason_aborts:
  assumes "snd (fst (safe_transcribe_audio env contents)) = Some e" and "e \<noteq> []"
  shows "echo_tts env (Returned contents) =
           (JSONResponse (create_fallback_response (Some e) ''stt'') 500,
            snd (safe_transcribe_audio env contents))
         \<and> llm_query_audio env (Returned contents) =
           (JSONResponse (create_fallback_response (Some e) ''stt'') 500,
            snd (safe_transcribe_audio env contents))
         \<and> agent_chat env st sid (Returned contents) =
           (JSONResponse (create_fallback_response (Some e) ''stt'') 500, st,
            snd (safe_transcribe_audio env contents))"
proof -
  obtain tr c1 where g: "safe_transcribe_audio env contents = ((tr, Some e), c1)"
    using assms(1) by (metis prod.exhaust_sel)
  show ?thesis using assms(2)
    by (simp add: echo_tts_def llm_query_audio_def agent_chat_def g truthy_def)
qed

text \<open>
  C2, at an exception with an empty message. The transcription collaborator raises,
  the helper returns \<open>(None, '')\<close>, and the test \<open>if transcribe_error:\<close> is false for the
  empty string: none of the three pipelines aborts. Each answers with status 200, and
  the generation and synthesis collaborators are called (with \<open>None\<close> as the prompt).
\<close>

theorem transcription_silent_failure_not_aborted:
  "transcribe env_silent_stt [] = Raised []
   \<and> fst (safe_transcribe_audio env_silent_stt []) = (None, Some [])
   \<and> status_code (fst (llm_query_audio env_silent_stt (Returned []))) = 200
   \<and> field (fst (llm_query_audio env_silent_stt (Returned []))) ''error'' = Some (JBool False)
   \<and> snd (llm_query_audio env_silent_stt (Returned [])) =
       [Safe_transcribe_audio [], Transcribe [],
        Safe_generate_llm_response None None, Generate_content None,
        Safe_generate_tts (Some (fallback_responses ! 0)), Post (Some (fallback_responses ! 0))]
   \<and> status_code (fst (echo_tts env_silent_stt (Returned []))) = 200
   \<and> snd (echo_tts env_silent_stt (Returned [])) =
       [Safe_transcribe_audio [], Transcribe [], Safe_generate_tts None, Post None]
   \<and> status_code (fst (agent_chat env_silent_stt Map.empty ''s'' (Returned []))) = 200
   \<and> filter later_stage (snd (snd (agent_chat env_silent_stt Map.empty ''s'' (Returned [])))) =
       [Safe_generate_llm_response None (Some []), Generate_content None,
        Safe_generate_tts (Some (fallback_responses ! 0)), Post (Some (fallback_responses ! 0))]"
  by (simp add: llm_query_audio_def echo_tts_def agent_chat_def safe_transcribe_audio_def
      safe_generate_llm_response_def safe_generate_tts_def llm_input_def fold_outcomes_def
      env_silent_stt_def env_ok_def truthy_def field_def map_of_dict_set fallback_nonempty Let_def)

section \<open>Generate-only: the fallback flag\<close>

text \<open>
  A generation failure hands back the first fallback sentence, and when its reason is
  not empty \<open>llm_query\<close> returns that sentence with \<open>error = false\<close> and
  \<open>has_fallback = true\<close>.
\<close>

lemma gen_error_gives_fallback:
  assumes "snd (fst (safe_generate_llm_response env prompt h)) = Some reason"
  shows "fst (fst (safe_generate_llm_response env prompt h)) = fallback_responses ! 0"
  using assms
  by (simp add: safe_generate_llm_response_def split: if_splits outcome.splits option.splits)

lemma llm_query_fallback_flagged:
  assumes "strip text_arg \<noteq> []"
    and "snd (fst (safe_generate_llm_response env (Some text_arg) None)) = Some reason"
    and "reason \<noteq> []"
  shows "fst (llm_query env text_arg) =
           JSONResponse
             [(''response'', JStr (fallback_responses ! 0)),
              (''input'', JStr text_arg),
              (''error'', JBool False),
              (''has_fallback'', JBool True)]
             200"
proof -
  obtain cs where g: "safe_generate_llm_response env (Some text_arg) None =
      ((fallback_responses ! 0, Some reason), cs)"
    using assms(2) gen_error_gives_fallback [OF assms(2)] by (metis prod.exhaust_sel)
  show ?thesis using assms(1,3) by (simp add: llm_query_def g truthy_def fallback_nonempty)
qed

text \<open>
  C5, at an exception with an empty message. The generation collaborator raises, the
  fallback sentence is returned as \<open>response\<close> with \<open>error = false\<close>, but
  \<open>has_fallback\<close> is \<open>bool('')\<close>, that is \<open>false\<close>.
\<close>

theorem llm_query_silent_failure:
  "strip ''hello'' \<noteq> []
   \<and> generate_content env_silent_llm (Some ''hello'') = Raised []
   \<and> fst (safe_generate_llm_response env_silent_llm (Some ''hello'') None) =
       (fallback_responses ! 0, Some [])
   \<and> fst (llm_query env_silent_llm ''hello'') =
       JSONResponse
         [(''response'', JStr (fallback_responses ! 0)),
          (''input'', JStr ''hello''),
          (''error'', JBool False),
          (''has_fallback'', JBool False)]
         200"
  by (simp add: llm_query_def safe_generate_llm_response_def llm_input_def env_silent_llm_def
      env_ok_def truthy_def strip_def isspace_def fallback_nonempty)

section \<open>Generate with audio input\<close>

text \<open>
  After a successful transcription \<open>llm_query_audio\<close> always answers with status 200
  and \<open>error = false\<close>; synthesis is called on the text the generation helper returned;
  \<open>has_llm_fallback\<close> is present exactly when the generation error is truthy, and
  \<open>tts_error\<close> with the fallback message exactly when the synthesis error is truthy.
\<close>

lemma llm_query_audio_after_transcription:
  assumes "truthy (ASSEMBLYAI_API_KEY env)"
    and "transcribe env contents = Returned (Some (Transcript (Some t)))"
    and "t \<noteq> []"
    and "safe_generate_llm_response env (Some t) None = ((llm_response, llm_error), c2)"
    and "safe_generate_tts env (Some llm_response) = ((audio_url, tts_error), c3)"
  shows "status_code (fst (llm_query_audio env (Returned contents))) = 200
    \<and> field (fst (llm_query_audio env (Returned contents))) ''error'' = Some (JBool False)
    \<and> field (fst (llm_query_audio env (Returned contents))) ''transcription'' = Some (JStr t)
    \<and> field (fst (llm_query_audio env (Returned contents))) ''llm_response'' = Some (JStr llm_response)
    \<and> field (fst (llm_query_audio env (Returned contents))) ''has_llm_fallback'' =
        (if truthy llm_error then Some (JBool True) else None)
    \<and> field (fst (llm_query_audio env (Returned contents))) ''tts_error'' =
        (if truthy tts_error then Some (JBool True) else None)
    \<and> field (fst (llm_query_audio env (Returned contents))) ''fallback_message'' =
        (if truthy tts_error then
           Some (JStr (''I'm having trouble generating audio right now. Here's my text response: ''
                       @ llm_response))
         else None)
    \<and> snd (llm_query_audio env (Returned contents)) =
        [Safe_transcribe_audio contents, Transcribe contents] @ c2 @ c3"
proof -
  have s: "safe_transcribe_audio env contents =
      ((Some t, None), [Safe_transcribe_audio contents, Transcribe contents])"
    using assms(1-3) by (simp add: safe_transcribe_audio_def truthy_def)
  show ?thesis
    by (simp add: llm_query_audio_def s assms(4,5) fold_outcomes_def field_def map_of_dict_set
        of_opt_def truthy_def)
qed

text \<open>
  Both flags on one response: with neither a generation key nor a synthesis key, the
  response has \<open>has_llm_fallback\<close> and \<open>tts_error\<close> set, \<open>error = false\<close>, and
  synthesis was called on the fallback sentence.
\<close>

lemma llm_query_audio_both_flags:
  "status_code (fst (llm_query_audio env_both_down (Returned []))) = 200
   \<and> field (fst (llm_query_audio env_both_down (Returned []))) ''error'' = Some (JBool False)
   \<and> field (fst (llm_query_audio env_both_down (Returned []))) ''has_llm_fallback'' = Some (JBool True)
   \<and> field (fst (llm_query_audio env_both_down (Returned []))) ''tts_error'' = Some (JBool True)
   \<and> snd (llm_query_audio env_both_down (Returned [])) =
       [Safe_transcribe_audio [], Transcribe [],
        Safe_generate_llm_response (Some ''hello'') None,
        Safe_generate_tts (Some (fallback_responses ! 0))]"
  by (simp add: llm_query_audio_def safe_transcribe_audio_def safe_generate_llm_response_def
      safe_generate_tts_def fold_outcomes_def env_both_down_def env_ok_def truthy_def field_def
      map_of_dict_set)

text \<open>
  C7, at exceptions with an empty message. With a generation collaborator that raises
  so, the response carries the fallback sentence as \<open>llm_response\<close> and no
  \<open>has_llm_fallback\<close> flag; with a synthesis collaborator that raises so, the response
  has a null \<open>audio_url\<close> and neither the \<open>tts_error\<close> flag nor a fallback message.
\<close>

theorem llm_query_audio_silent_failures:
  "fst (safe_transcribe_audio env_silent_llm []) = (Some ''hello'', None)
   \<and> generate_content env_silent_llm (Some ''hello'') = Raised []
   \<and> field (fst (llm_query_audio env_silent_llm (Returned []))) ''llm_response'' =
       Some (JStr (fallback_responses ! 0))
   \<and> field (fst (llm_query_audio env_silent_llm (Returned []))) ''has_llm_fallback'' = None
   \<and> post env_silent_tts (Some ''Hi there'') = Raised []
   \<and> field (fst (llm_query_audio env_silent_tts (Returned []))) ''audio_url'' = Some JNull
   \<and> field (fst (llm_query_audio env_silent_tts (Returned []))) ''tts_error'' = None
   \<and> field (fst (llm_query_audio env_silent_tts (Returned []))) ''fallback_message'' = None"
  by (simp add: llm_query_audio_def safe_transcribe_audio_def
      safe_generate_llm_response_def safe_generate_tts_def llm_input_def fold_outcomes_def
      env_silent_llm_def env_silent_tts_def env_ok_def truthy_def field_def map_of_dict_set of_opt_def)

section \<open>Sessions never referenced\<close>

lemma agent_chat_other_session:
  "s \<noteq> sid \<Longrightarrow> fst (snd (agent_chat env st s f)) sid = st sid"
  by (simp add: agent_chat_def Let_def case_prod_beta split: outcome.splits option.splits)

lemma handle_keeps_absent:
  assumes "st sid = None" and "\<not> refers sid r"
  shows "fst (snd (handle r st)) sid = None"
  using assms
  by (cases r)
    (simp_all add: case_prod_beta agent_chat_other_session get_chat_history_def
      clear_chat_history_def split: option.splits)

lemma run_keeps_absent:
  assumes "st sid = None" and "\<not> list_ex (refers sid) rs"
  shows "fst (run rs st) sid = None"
  using assms
proof (induction rs arbitrary: st)
  case Nil
  then show ?case by simp
next
  case (Cons r rs)
  from Cons.prems have a: "fst (snd (handle r st)) sid = None"
    by (simp add: handle_keeps_absent)
  from Cons.prems have b: "\<not> list_ex (refers sid) rs" by simp
  show ?case using Cons.IH [of "fst (snd (handle r st))", OF a b] by (simp add: case_prod_beta)
qed

text \<open>
  C9. Take any sequence of requests since the start of the process (the empty store),
  none of which refers to \<open>session_id\<close>. Then reading the history of \<open>session_id\<close>
  returns the empty list with \<open>error = false\<close> and status 200, deleting it returns
  \<open>error = false\<close> with status 200 and leaves the store as it was, and so does a second
  delete after the first.
\<close>

theorem unknown_session_read_and_delete:
  assumes "\<not> list_ex (refers session_id) rs"
    and "chat_histories = fst (run rs Map.empty)"
  shows "get_chat_history chat_histories session_id =
           (JSONResponse
              [(''session_id'', JStr session_id), (''chat_history'', JTurns []), (''error'', JBool False)]
              200,
            chat_histories, [])
         \<and> clear_chat_history chat_histories session_id =
           (JSONResponse
              [(''session_id'', JStr session_id),
               (''message'', JStr ''Chat history cleared''),
               (''error'', JBool False)]
              200,
            chat_histories, [])
         \<and> clear_chat_history (fst (snd (clear_chat_history chat_histories session_id))) session_id =
           (JSONResponse
              [(''session_id'', JStr session_id),
               (''message'', JStr ''Chat history cleared''),
               (''error'', JBool False)]
              200,
            chat_histories, [])"
proof -
  have "chat_histories session_id = None"
    using run_keeps_absent [of Map.empty session_id rs] assms by simp
  then show ?thesis by (simp add: get_chat_history_def clear_chat_history_def)
qed

theorem unknown_session_read_and_delete_witness:
  "\<not> list_ex (refers ''b'') [Chat env_ok ''a'' (Returned []), Clear ''a'']
   \<and> field (fst (get_chat_history (fst (run [Chat env_ok ''a'' (Returned []), Clear ''a''] Map.empty)) ''b''))
        ''chat_history'' = Some (JTurns [])
   \<and> field (fst (get_chat_history (fst (run [Chat env_ok ''a'' (Returned []), Clear ''a''] Map.empty)) ''b''))
        ''error'' = Some (JBool False)
   \<and> field (fst (clear_chat_history (fst (run [Chat env_ok ''a'' (Returned []), Clear ''a''] Map.empty)) ''b''))
        ''error'' = Some (JBool False)"
proof -
  have h: "\<not> list_ex (refers ''b'') [Chat env_ok ''a'' (Returned []), Clear ''a'']" by simp
  show ?thesis
    using h unknown_session_read_and_delete [OF h refl] by (simp add: field_def)
qed

section \<open>Chat: what one request appends\<close>

text \<open>
  C4. When the transcription of a chat request succeeds with the text \<open>t\<close>, the
  transcript of the session becomes the old transcript followed by exactly one user turn
  with \<open>t\<close> and one assistant turn with the text the generation helper returned (the
  model's text or, when generation failed, the fallback sentence: the statement
  does not depend on which); these two are the only appends of the request, and the
  response (status 200, \<open>error = false\<close>) carries the whole updated transcript as
  \<open>chat_history\<close>.
\<close>

theorem agent_chat_appends_both_turns:
  assumes "truthy (ASSEMBLYAI_API_KEY env)"
    and "transcribe env contents = Returned (Some (Transcript (Some t)))"
    and "t \<noteq> []"
    and "llm_response = fst (fst (safe_generate_llm_response env (Some t) (Some (turns_of chat_histories session_id))))"
    and "updated = turns_of chat_histories session_id
                     @ [\<lparr>role = ''user'', content = Some t\<rparr>,
                        \<lparr>role = ''assistant'', content = Some llm_response\<rparr>]"
  shows "fst (snd (agent_chat env chat_histories session_id (Returned contents))) =
           chat_histories(session_id \<mapsto> updated)
         \<and> appends session_id (snd (snd (agent_chat env chat_histories session_id (Returned contents)))) =
           [\<lparr>role = ''user'', content = Some t\<rparr>,
            \<lparr>role = ''assistant'', content = Some llm_response\<rparr>]
         \<and> status_code (fst (agent_chat env chat_histories session_id (Returned contents))) = 200
         \<and> field (fst (agent_chat env chat_histories session_id (Returned contents))) ''error'' =
             Some (JBool False)
         \<and> field (fst (agent_chat env chat_histories session_id (Returned contents))) ''transcription'' =
             Some (JStr t)
         \<and> field (fst (agent_chat env chat_histories session_id (Returned contents))) ''llm_response'' =
             Some (JStr llm_response)
         \<and> field (fst (agent_chat env chat_histories session_id (Returned contents))) ''chat_history'' =
             Some (JTurns updated)"
proof -
  have s: "safe_transcribe_audio env contents =
      ((Some t, None), [Safe_transcribe_audio contents, Transcribe contents])"
    using assms(1-3) by (simp add: safe_transcribe_audio_def truthy_def)
  have ag: "appends session_id (snd (safe_generate_llm_response env p h)) = []" for p h
    by (simp add: safe_generate_llm_response_def)
  have at: "appends session_id (snd (safe_generate_tts env x)) = []" for x
    by (simp add: safe_generate_tts_def)
  have app: "appends session_id (xs @ ys) = appends session_id xs @ appends session_id ys" for xs ys
    by (induction session_id xs rule: appends.induct) simp_all
  show ?thesis
    unfolding assms(4,5)
    by (cases "chat_histories session_id")
      (simp_all add: agent_chat_def s Let_def case_prod_beta fold_outcomes_def field_def
        map_of_dict_set of_opt_def truthy_def turns_of_def app ag at)
qed

theorem agent_chat_appends_both_turns_witness:
  "truthy (ASSEMBLYAI_API_KEY env_llm_down)
   \<and> transcribe env_llm_down [] = Returned (Some (Transcript (Some ''hello'')))
   \<and> ''hello'' \<noteq> []
   \<and> snd (fst (safe_generate_llm_response env_llm_down (Some ''hello'') (Some []))) =
        Some ''Gemini API key not configured''
   \<and> fst (snd (agent_chat env_llm_down Map.empty ''s'' (Returned []))) =
        [''s'' \<mapsto> [\<lparr>role = ''user'', content = Some ''hello''\<rparr>,
                   \<lparr>role = ''assistant'', content = Some (fallback_responses ! 0)\<rparr>]]
   \<and> field (fst (agent_chat env_llm_down Map.empty ''s'' (Returned []))) ''chat_history'' =
        Some (JTurns [\<lparr>role = ''user'', content = Some ''hello''\<rparr>,
                      \<lparr>role = ''assistant'', content = Some (fallback_responses ! 0)\<rparr>])"
proof -
  have h1: "truthy (ASSEMBLYAI_API_KEY env_llm_down)"
    by (simp add: env_llm_down_def env_ok_def truthy_def)
  have h2: "transcribe env_llm_down [] = Returned (Some (Transcript (Some ''hello'')))"
    by (simp add: env_llm_down_def env_ok_def)
  have h3: "''hello'' \<noteq> []" by simp
  have g: "fst (safe_generate_llm_response env_llm_down (Some ''hello'') (Some [])) =
      (fallback_responses ! 0, Some ''Gemini API key not configured'')"
    by (simp add: safe_generate_llm_response_def env_llm_down_def env_ok_def truthy_def)
  have t: "turns_of Map.empty ''s'' = []" by (simp add: turns_of_def)
  show ?thesis
    using h1 h2 h3 agent_chat_appends_both_turns [OF h1 h2 h3 refl refl, of Map.empty "''s''"]
    by (simp add: g t)
qed

section \<open>Call logs of the helpers\<close>

lemma appends_append: "appends sid (xs @ ys) = appends sid xs @ appends sid ys"
  by (induction sid xs rule: appends.induct) simp_all

lemma generation_contexts_append:
  "generation_contexts (xs @ ys) = generation_contexts xs @ generation_contexts ys"
  by (induction xs rule: generation_contexts.induct) simp_all

lemma replay_append: "replay sid h (xs @ ys) = replay sid (replay sid h xs) ys"
  by (induction sid h xs rule: replay.induct) simp_all

lemma stt_log_quiet:
  "appends sid (snd (safe_transcribe_audio env c)) = []"
  "generation_contexts (snd (safe_transcribe_audio env c)) = []"
  "replay sid h (snd (safe_transcribe_audio env c)) = h"
  by (simp_all add: safe_transcribe_audio_def)

lemma tts_log_quiet:
  "appends sid (snd (safe_generate_tts env x)) = []"
  "generation_contexts (snd (safe_generate_tts env x)) = []"
  "replay sid h (snd (safe_generate_tts env x)) = h"
  by (simp_all add: safe_generate_tts_def)

lemma gen_log_quiet:
  "appends sid (snd (safe_generate_llm_response env p ctx)) = []"
  "generation_contexts (snd (safe_generate_llm_response env p ctx)) = [ctx]"
  "replay sid h (snd (safe_generate_llm_response env p ctx)) = h"
  by (simp_all add: safe_generate_llm_response_def)

lemmas helper_logs =
  stt_log_quiet tts_log_quiet gen_log_quiet replay_append appends_append generation_contexts_append

section \<open>Chat: the context of the next request\<close>

text \<open>
  A chat request that is not aborted (status 200) calls the generation helper once, with
  the transcript as it stood before the request, and appends its two turns.
\<close>

lemma agent_chat_completed:
  assumes "agent_chat env st sid file = (resp, st', cs)" and "status_code resp = 200"
  shows "\<exists>t r. field resp ''transcription'' = Some (of_opt t)
           \<and> field resp ''llm_response'' = Some (JStr r)
           \<and> appends sid cs = [\<lparr>role = ''user'', content = t\<rparr>, \<lparr>role = ''assistant'', content = Some r\<rparr>]
           \<and> generation_contexts cs = [Some (turns_of st sid)]
           \<and> st' = st(sid \<mapsto> turns_of st sid
                        @ [\<lparr>role = ''user'', content = t\<rparr>, \<lparr>role = ''assistant'', content = Some r\<rparr>])"
proof (cases "file")
  case (Raised e)
  with assms show ?thesis by (auto simp: agent_chat_def)
next
  case (Returned contents)
  show ?thesis
  proof (cases "truthy (snd (fst (safe_transcribe_audio env contents)))")
    case True
    with assms Returned show ?thesis by (auto simp: agent_chat_def case_prod_beta)
  next
    case False
    with assms(1) Returned show ?thesis
      by (cases "st sid")
        (auto simp: agent_chat_def case_prod_beta Let_def fold_outcomes_def field_def
          map_of_dict_set turns_of_def appends_append generation_contexts_append
          stt_log_quiet tts_log_quiet gen_log_quiet)
  qed
qed

text \<open>
  C3 as stated fails. On a new session \<open>s\<close>, take the second and the third chat request:
  two sequential requests on that session. The generation call of the third receives
  four turns, those of the first request and those of the second, not exactly the two
  turns the second request produced.
\<close>

theorem second_chat_context_counterexample:
  "generation_contexts (snd (snd (agent_chat env_ok after_two_chats ''s'' (Returned [])))) =
     [Some [\<lparr>role = ''user'', content = Some ''hello''\<rparr>,
            \<lparr>role = ''assistant'', content = Some ''Hi there''\<rparr>,
            \<lparr>role = ''user'', content = Some ''hello''\<rparr>,
            \<lparr>role = ''assistant'', content = Some ''Hi there''\<rparr>]]
   \<and> appends ''s'' (snd (snd (agent_chat env_ok after_one_chat ''s'' (Returned [])))) =
     [\<lparr>role = ''user'', content = Some ''hello''\<rparr>,
      \<lparr>role = ''assistant'', content = Some ''Hi there''\<rparr>]
   \<and> generation_contexts (snd (snd (agent_chat env_ok after_two_chats ''s'' (Returned [])))) \<noteq>
     [Some (appends ''s'' (snd (snd (agent_chat env_ok after_one_chat ''s'' (Returned [])))))]"
  by (simp add: after_two_chats_def after_one_chat_def agent_chat_def safe_transcribe_audio_def
      safe_generate_llm_response_def safe_generate_tts_def llm_input_def fold_outcomes_def
      env_ok_def truthy_def Let_def)

text \<open>
  C3 (as the code has it). Of two chat requests on one session, one after the other and
  neither aborted, the generation call of the second receives as context the transcript
  as it stood before the second request: the turns the session held before the first
  request, followed by the user turn and the assistant turn the first request appended.
  When the session held no turn before the first request, the context is exactly those
  two turns. The second request's own user turn is appended to the transcript but is
  not part of the context.
\<close>

theorem second_chat_context:
  assumes "agent_chat env1 st sid file1 = (resp1, st1, cs1)"
    and "status_code resp1 = 200"
    and "agent_chat env2 st1 sid file2 = (resp2, st2, cs2)"
    and "status_code resp2 = 200"
  shows "\<exists>t1 r1 t2 r2.
           field resp1 ''transcription'' = Some (of_opt t1)
         \<and> field resp1 ''llm_response'' = Some (JStr r1)
         \<and> appends sid cs1 =
             [\<lparr>role = ''user'', content = t1\<rparr>, \<lparr>role = ''assistant'', content = Some r1\<rparr>]
         \<and> generation_contexts cs2 = [Some (turns_of st sid @ appends sid cs1)]
         \<and> (turns_of st sid = [] \<longrightarrow> generation_contexts cs2 = [Some (appends sid cs1)])
         \<and> field resp2 ''transcription'' = Some (of_opt t2)
         \<and> appends sid cs2 =
             [\<lparr>role = ''user'', content = t2\<rparr>, \<lparr>role = ''assistant'', content = Some r2\<rparr>]
         \<and> turns_of st2 sid = turns_of st sid @ appends sid cs1 @ appends sid cs2"
proof -
  from agent_chat_completed [OF assms(1,2)] obtain t1 r1 where
    a: "field resp1 ''transcription'' = Some (of_opt t1)"
       "field resp1 ''llm_response'' = Some (JStr r1)"
       "appends sid cs1 = [\<lparr>role = ''user'', content = t1\<rparr>, \<lparr>role = ''assistant'', content = Some r1\<rparr>]"
       "st1 = st(sid \<mapsto> turns_of st sid
                 @ [\<lparr>role = ''user'', content = t1\<rparr>, \<lparr>role = ''assistant'', content = Some r1\<rparr>])"
    by blast
  from agent_chat_completed [OF assms(3,4)] obtain t2 r2 where
    b: "field resp2 ''transcription'' = Some (of_opt t2)"
       "appends sid cs2 = [\<lparr>role = ''user'', content = t2\<rparr>, \<lparr>role = ''assistant'', content = Some r2\<rparr>]"
       "generation_contexts cs2 = [Some (turns_of st1 sid)]"
       "st2 = st1(sid \<mapsto> turns_of st1 sid
                 @ [\<lparr>role = ''user'', content = t2\<rparr>, \<lparr>role = ''assistant'', content = Some r2\<rparr>])"
    by blast
  have c: "turns_of st1 sid = turns_of st sid @ appends sid cs1"
    by (simp add: a(3,4) turns_of_def)
  have d: "turns_of st2 sid = turns_of st sid @ appends sid cs1 @ appends sid cs2"
    using c by (simp add: b(2,4) turns_of_def)
  show ?thesis using a(1,2,3) b(1,2,3) c d by auto
qed

theorem second_chat_context_witness:
  "status_code (fst (agent_chat env_ok Map.empty ''s'' (Returned []))) = 200
   \<and> status_code (fst (agent_chat env_ok after_one_chat ''s'' (Returned []))) = 200
   \<and> generation_contexts (snd (snd (agent_chat env_ok after_one_chat ''s'' (Returned [])))) =
       [Some (turns_of Map.empty ''s''
              @ appends ''s'' (snd (snd (agent_chat env_ok Map.empty ''s'' (Returned [])))))]
   \<and> generation_contexts (snd (snd (agent_chat env_ok after_one_chat ''s'' (Returned [])))) =
       [Some [\<lparr>role = ''user'', content = Some ''hello''\<rparr>,
              \<lparr>role = ''assistant'', content = Some ''Hi there''\<rparr>]]"
proof -
  have e1: "agent_chat env_ok Map.empty ''s'' (Returned []) =
      (fst (agent_chat env_ok Map.empty ''s'' (Returned [])), after_one_chat,
       snd (snd (agent_chat env_ok Map.empty ''s'' (Returned []))))"
    by (simp add: after_one_chat_def)
  have e2: "agent_chat env_ok after_one_chat ''s'' (Returned []) =
      (fst (agent_chat env_ok after_one_chat ''s'' (Returned [])), after_two_chats,
       snd (snd (agent_chat env_ok after_one_chat ''s'' (Returned []))))"
    by (simp add: after_two_chats_def)
  have h1: "status_code (fst (agent_chat env_ok Map.empty ''s'' (Returned []))) = 200"
    by (simp add: agent_chat_def safe_transcribe_audio_def env_ok_def truthy_def Let_def
        case_prod_beta)
  have h2: "status_code (fst (agent_chat env_ok after_one_chat ''s'' (Returned []))) = 200"
    by (simp add: agent_chat_def safe_transcribe_audio_def env_ok_def truthy_def Let_def
        case_prod_beta)
  have a: "appends ''s'' (snd (snd (agent_chat env_ok Map.empty ''s'' (Returned [])))) =
      [\<lparr>role = ''user'', content = Some ''hello''\<rparr>,
       \<lparr>role = ''assistant'', content = Some ''Hi there''\<rparr>]"
    by (simp add: agent_chat_def safe_transcribe_audio_def safe_generate_llm_response_def
        safe_generate_tts_def llm_input_def env_ok_def truthy_def Let_def)
  have t: "turns_of Map.empty ''s'' = []" by (simp add: turns_of_def)
  from second_chat_context [OF e1 h1 e2 h2]
  have "generation_contexts (snd (snd (agent_chat env_ok after_one_chat ''s'' (Returned [])))) =
       [Some (turns_of Map.empty ''s''
              @ appends ''s'' (snd (snd (agent_chat env_ok Map.empty ''s'' (Returned [])))))]"
    by blast
  then show ?thesis using h1 h2 by (simp add: a t)
qed

section \<open>The session store over a sequence of requests\<close>

text \<open>
  The handlers without a store argument make no call that changes \<open>chat_histories\<close>.
\<close>

lemma stateless_logs:
  "replay sid h (snd (generate_tts env t)) = h"
  "appends sid (snd (generate_tts env t)) = []"
  "replay sid h (snd (transcribe_audio env f)) = h"
  "appends sid (snd (transcribe_audio env f)) = []"
  "replay sid h (snd (echo_tts env f)) = h"
  "appends sid (snd (echo_tts env f)) = []"
  "replay sid h (snd (llm_query env t)) = h"
  "appends sid (snd (llm_query env t)) = []"
  "replay sid h (snd (llm_query_audio env f)) = h"
  "appends sid (snd (llm_query_audio env f)) = []"
  by (simp_all add: generate_tts_def transcribe_audio_def echo_tts_def llm_query_def
      llm_query_audio_def case_prod_beta helper_logs split: outcome.splits option.splits)

text \<open>
  One chat request: the transcript of any session afterwards is what the request's own
  \<open>append\<close> calls make of the transcript before.
\<close>

lemma agent_chat_replay:
  "turns_of (fst (snd (agent_chat env st s f))) sid =
     replay sid (turns_of st sid) (snd (snd (agent_chat env st s f)))"
proof (cases "s = sid")
  case True
  then show ?thesis
    by (cases "st sid")
      (simp_all add: agent_chat_def case_prod_beta Let_def turns_of_def helper_logs
        split: outcome.splits)
next
  case False
  then show ?thesis
    by (simp add: agent_chat_def case_prod_beta Let_def turns_of_def helper_logs
        split: outcome.splits option.splits)
qed

lemma agent_chat_appends:
  "turns_of (fst (snd (agent_chat env st s f))) sid =
     turns_of st sid @ appends sid (snd (snd (agent_chat env st s f)))"
proof (cases "s = sid")
  case True
  then show ?thesis
    by (cases "st sid")
      (simp_all add: agent_chat_def case_prod_beta Let_def turns_of_def helper_logs
        split: outcome.splits)
next
  case False
  then show ?thesis
    by (simp add: agent_chat_def case_prod_beta Let_def turns_of_def helper_logs
        split: outcome.splits option.splits)
qed

lemma handle_replay:
  "turns_of (fst (snd (handle r st))) sid =
     replay sid (turns_of st sid) (snd (snd (handle r st)))"
proof (cases r)
  case (Chat env s f)
  then show ?thesis by (simp add: agent_chat_replay)
next
  case (History s)
  then show ?thesis by (simp add: get_chat_history_def split: option.splits)
next
  case (Clear s)
  then show ?thesis by (simp add: clear_chat_history_def turns_of_def split: option.splits)
qed (simp_all add: case_prod_beta stateless_logs create_new_session_def health_check_def)

lemma handle_appends:
  assumes "r \<noteq> Clear sid"
  shows "turns_of (fst (snd (handle r st))) sid =
     turns_of st sid @ appends sid (snd (snd (handle r st)))"
proof (cases r)
  case (Chat env s f)
  then show ?thesis by (simp add: agent_chat_appends)
next
  case (History s)
  then show ?thesis by (simp add: get_chat_history_def split: option.splits)
next
  case (Clear s)
  with assms show ?thesis by (simp add: clear_chat_history_def turns_of_def split: option.splits)
qed (simp_all add: case_prod_beta stateless_logs create_new_session_def health_check_def)

lemma run_replay:
  "turns_of (fst (run rs st)) sid = replay sid (turns_of st sid) (snd (run rs st))"
proof (induction rs arbitrary: st)
  case Nil
  show ?case by simp
next
  case (Cons r rs)
  show ?case
    using Cons.IH [of "fst (snd (handle r st))"] handle_replay [of r st sid]
    by (simp add: case_prod_beta replay_append)
qed

lemma run_appends:
  assumes "Clear sid \<notin> set rs"
  shows "turns_of (fst (run rs st)) sid = turns_of st sid @ appends sid (snd (run rs st))"
  using assms
proof (induction rs arbitrary: st)
  case Nil
  show ?case by simp
next
  case (Cons r rs)
  from Cons.prems have a: "r \<noteq> Clear sid" and b: "Clear sid \<notin> set rs" by auto
  show ?case
    using Cons.IH [OF b, of "fst (snd (handle r st))"] handle_appends [OF a, of st]
    by (simp add: case_prod_beta appends_append)
qed

lemma read_returns_store:
  "field (fst (get_chat_history st sid)) ''chat_history'' = Some (JTurns (turns_of st sid))
   \<and> fst (snd (get_chat_history st sid)) = st"
  by (simp add: get_chat_history_def field_def turns_of_def split: option.splits)

text \<open>
  C8. After any sequence of requests, run one after the other from any store, reading
  the history of a session returns what the calls on \<open>chat_histories\<close> made of its
  transcript: each appended turn, with its role and content as appended, at the end in
  call order, and the empty transcript after a deletion of the session. When the
  sequence has no deletion of the session, the history read is the transcript before
  the sequence followed by exactly the turns appended to the session, in order: no other
  request removes or changes a turn. Reading does not change the store.
\<close>

theorem transcript_is_the_appended_turns:
  "field (fst (get_chat_history (fst (run rs st)) sid)) ''chat_history'' =
     Some (JTurns (replay sid (turns_of st sid) (snd (run rs st))))
   \<and> (Clear sid \<notin> set rs \<longrightarrow>
        field (fst (get_chat_history (fst (run rs st)) sid)) ''chat_history'' =
          Some (JTurns (turns_of st sid @ appends sid (snd (run rs st)))))
   \<and> fst (snd (get_chat_history (fst (run rs st)) sid)) = fst (run rs st)"
  using read_returns_store [of "fst (run rs st)" sid] run_replay [of rs st sid]
    run_appends [of sid rs st]
  by simp

theorem transcript_is_the_appended_turns_witness:
  "Clear ''s'' \<notin> set example_requests
   \<and> field (fst (get_chat_history (fst (run example_requests Map.empty)) ''s'')) ''chat_history'' =
       Some (JTurns
         [\<lparr>role = ''user'', content = Some ''hello''\<rparr>,
          \<lparr>role = ''assistant'', content = Some ''Hi there''\<rparr>,
          \<lparr>role = ''user'', content = Some ''hello''\<rparr>,
          \<lparr>role = ''assistant'', content = Some (fallback_responses ! 0)\<rparr>])
   \<and> field (fst (get_chat_history (fst (run example_requests Map.empty)) ''t'')) ''chat_history'' =
       Some (JTurns [])"
proof -
  have h: "Clear ''s'' \<notin> set example_requests" by (simp add: example_requests_def)
  have l: "snd (run example_requests Map.empty) =
      [Safe_transcribe_audio [], Transcribe [], New_transcript ''s'',
       Append ''s'' \<lparr>role = ''user'', content = Some ''hello''\<rparr>,
       Safe_generate_llm_response (Some ''hello'') (Some []), Generate_content (Some ''hello''),
       Append ''s'' \<lparr>role = ''assistant'', content = Some ''Hi there''\<rparr>,
       Safe_generate_tts (Some ''Hi there''), Post (Some ''Hi there''),
       Safe_transcribe_audio [], Transcribe [], New_transcript ''t'',
       Append ''t'' \<lparr>role = ''user'', content = Some ''hello''\<rparr>,
       Safe_generate_llm_response (Some ''hello'') (Some []), Generate_content (Some ''hello''),
       Append ''t'' \<lparr>role = ''assistant'', content = Some ''Hi there''\<rparr>,
       Safe_generate_tts (Some ''Hi there''),
       Delete ''t'',
       Safe_transcribe_audio [], Transcribe [],
       Append ''s'' \<lparr>role = ''user'', content = Some ''hello''\<rparr>,
       Safe_generate_llm_response (Some ''hello'')
         (Some [\<lparr>role = ''user'', content = Some ''hello''\<rparr>,
                \<lparr>role = ''assistant'', content = Some ''Hi there''\<rparr>]),
       Append ''s'' \<lparr>role = ''assistant'', content = Some (fallback_responses ! 0)\<rparr>,
       Safe_generate_tts (Some (fallback_responses ! 0)), Post (Some (fallback_responses ! 0))]"
    by (simp add: example_requests_def agent_chat_def clear_chat_history_def
        safe_transcribe_audio_def safe_generate_llm_response_def safe_generate_tts_def
        llm_input_def env_ok_def env_tts_down_def env_llm_down_def truthy_def Let_def)
  have t: "turns_of Map.empty x = []" for x by (simp add: turns_of_def)
  show ?thesis
    using h transcript_is_the_appended_turns [of example_requests Map.empty "''s''"]
      transcript_is_the_appended_turns [of example_requests Map.empty "''t''"]
    by (simp add: l t)
qed

end
